theory Spec2Isabelle
  imports Main
begin

section \<open>Python values and objects\<close>

text \<open>
  The module \<^verbatim>\<open>tarantool_locksmith/locksmith.py\<close> is modelled as a sequential
  Python program.  Values that travel through it (host, port, lock names, validities,
  timeouts, fields of reply tuples) are \<open>pyval\<close>s.  A finite float is a dyadic
  number \<open>m * 2 ^ e\<close>, so \<open>1.0\<close> is \<open>PyFloat 1 0\<close>.
\<close>

datatype pyval =
    PyNone
  | PyBool bool
  | PyInt int
  | PyFloat int int
  | PyStr string
  | PyTuple "pyval list"

text \<open>Python truthiness, as used by \<^verbatim>\<open>not host or not port\<close>.\<close>

fun truthy :: "pyval \<Rightarrow> bool" where
  "truthy PyNone = False"
| "truthy (PyBool b) = b"
| "truthy (PyInt i) = (i \<noteq> 0)"
| "truthy (PyFloat m e) = (m \<noteq> 0)"
| "truthy (PyStr s) = (s \<noteq> [])"
| "truthy (PyTuple xs) = (xs \<noteq> [])"

text \<open>\<^verbatim>\<open>isinstance(port, int)\<close>: \<^verbatim>\<open>bool\<close> is a subclass of \<^verbatim>\<open>int\<close>.\<close>

fun isinstance_int :: "pyval \<Rightarrow> bool" where
  "isinstance_int (PyInt i) = True"
| "isinstance_int (PyBool b) = True"
| "isinstance_int v = False"

text \<open>
  An object handed to one of the two substitution points is seen by the module only
  through \<^verbatim>\<open>dir()\<close>: a name, a serial number that tells instances apart, and the
  list of attribute names \<^verbatim>\<open>dir()\<close> returns.
\<close>

datatype pyobj = PyObj (obj_name: string) (obj_serial: nat) (obj_dir: "string list")

text \<open>
  The class \<^verbatim>\<open>tarantool.Connection\<close> of the external tarantool package, by the
  attributes a connection class is used through.
\<close>

definition tarantool_Connection :: pyobj where
  "tarantool_Connection =
     PyObj ''tarantool.Connection'' 0
       [''__init__'', ''call'', ''close'', ''connect'', ''delete'', ''insert'',
        ''ping'', ''select'', ''update'']"

datatype error =
    AttributeError string string
  | TypeError string
  | IndexError
  | BadConfigException string
  | TransportError string

text \<open>
  The names bound in the bodies of the two classes.  \<^verbatim>\<open>BadConfigException\<close> is
  an attribute of \<^verbatim>\<open>Locksmith\<close>; class \<^verbatim>\<open>Lock\<close> (a subclass of \<^verbatim>\<open>object\<close>)
  binds four methods only.
\<close>

definition Lock_attributes :: "string list" where
  "Lock_attributes = [''__init__'', ''__repr__'', ''update'', ''release'']"

definition Locksmith_attributes :: "string list" where
  "Locksmith_attributes =
     [''DatabaseError'', ''NetworkError'', ''BadConfigException'', ''ZeroTupleException'',
      ''BadTupleException'', ''__init__'', ''tarantool_connection'', ''tarantool_lock'',
      ''tnt'', ''acquire'', ''update'', ''release'', ''statistics'']"

text \<open>
  \<^verbatim>\<open>raise Lock.BadConfigException(msg)\<close>: the attribute lookup on class \<^verbatim>\<open>Lock\<close>
  is evaluated first, and raises \<^verbatim>\<open>AttributeError\<close> when the class has no such name.
\<close>

definition raise_Lock_BadConfigException :: "string \<Rightarrow> error" where
  "raise_Lock_BadConfigException msg =
     (if ''BadConfigException'' \<in> set Lock_attributes then BadConfigException msg
      else AttributeError ''Lock'' ''BadConfigException'')"

text \<open>Indexing a sequence: \<^verbatim>\<open>xs[i]\<close> raises \<^verbatim>\<open>IndexError\<close> out of range.\<close>

definition index :: "'a list \<Rightarrow> nat \<Rightarrow> error + 'a" where
  "index xs i = (if i < length xs then Inr (xs ! i) else Inl IndexError)"

section \<open>Program state and the outside world\<close>

type_synonym ref = nat

datatype chan = Chan nat

record Locksmith =
  self_host :: pyval
  self_port :: pyval
  self_user :: pyval
  self_password :: pyval
  self_timeout :: pyval
  self_tubes :: "(pyval \<times> pyval) list"
  self_lockinst :: "pyobj option"
  self_conclass :: "pyobj option"
  self_tnt :: "chan option"

record Lock =
  lk_locksmith :: ref
  lk_name :: pyval
  lk_uid :: pyval

text \<open>
  What the program does to the outside world, in order: entering and leaving the
  mutual-exclusion object, calling the connection class with
  \<^verbatim>\<open>(host, port, user=, password=, socket_timeout=)\<close>, and calling
  \<^verbatim>\<open>call(func_name, *args)\<close> on a connection.
\<close>

datatype event =
    Enter pyobj
  | Exit pyobj
  | Construct pyobj pyval pyval pyval pyval pyval
  | Call chan string "pyval list"

record state =
  locksmiths :: "ref \<Rightarrow> Locksmith"
  locks :: "ref \<Rightarrow> Lock"
  fresh :: nat
  trace :: "event list"

text \<open>
  The transport and the remote authority are outside the module.  Their behaviour is a
  parameter: given everything the program has done so far, ending with the request,
  \<open>env_connect\<close> says whether the connection class raises and \<open>env_respond\<close> what a
  remote call raises or returns (a sequence of tuples).
\<close>

record env =
  env_connect :: "event list \<Rightarrow> error option"
  env_respond :: "event list \<Rightarrow> error + pyval list list"

definition log :: "event \<Rightarrow> state \<Rightarrow> state" where
  "log e st = st\<lparr>trace := trace st @ [e]\<rparr>"

definition put_self :: "ref \<Rightarrow> Locksmith \<Rightarrow> state \<Rightarrow> state" where
  "put_self self obj st = st\<lparr>locksmiths := (locksmiths st)(self := obj)\<rparr>"

text \<open>\<^verbatim>\<open>threading.Lock()\<close>: a new lock object at every call.\<close>

definition threading_Lock :: "state \<Rightarrow> pyobj \<times> state" where
  "threading_Lock st =
     (PyObj ''threading.Lock'' (fresh st)
        [''__enter__'', ''__exit__'', ''acquire'', ''locked'', ''release''],
      st\<lparr>fresh := Suc (fresh st)\<rparr>)"

text \<open>\<^verbatim>\<open>con_cls(host, port, user=..., password=..., socket_timeout=...)\<close>.\<close>

definition construct ::
  "env \<Rightarrow> state \<Rightarrow> pyobj \<Rightarrow> pyval \<Rightarrow> pyval \<Rightarrow> pyval \<Rightarrow> pyval \<Rightarrow> pyval \<Rightarrow> (error + chan) \<times> state" where
  "construct ev st cls h p u pw t =
     (let st1 = log (Construct cls h p u pw t) st in
      case env_connect ev (trace st1) of
        Some e \<Rightarrow> (Inl e, st1)
      | None \<Rightarrow> (Inr (Chan (fresh st1)), st1\<lparr>fresh := Suc (fresh st1)\<rparr>))"

text \<open>\<^verbatim>\<open>conn.call(func_name, *args)\<close>; on \<^verbatim>\<open>None\<close> the attribute lookup fails.\<close>

definition call ::
  "env \<Rightarrow> state \<Rightarrow> chan option \<Rightarrow> string \<Rightarrow> pyval list \<Rightarrow> (error + pyval list list) \<times> state" where
  "call ev st conn func_name args =
     (case conn of
        None \<Rightarrow> (Inl (AttributeError ''NoneType'' ''call''), st)
      | Some c \<Rightarrow>
          (let st1 = log (Call c func_name args) st in (env_respond ev (trace st1), st1)))"

section \<open>class Lock\<close>

text \<open>\<^verbatim>\<open>Lock(locksmith, name, uid)\<close>: a new object with the three attributes.\<close>

definition Lock_new :: "state \<Rightarrow> ref \<Rightarrow> pyval \<Rightarrow> pyval \<Rightarrow> ref \<times> state" where
  "Lock_new st ls nm u =
     (fresh st,
      st\<lparr>locks := (locks st)(fresh st := \<lparr>lk_locksmith = ls, lk_name = nm, lk_uid = u\<rparr>),
         fresh := Suc (fresh st)\<rparr>)"

section \<open>class Locksmith\<close>

text \<open>
  \<^verbatim>\<open>__init__(self, host='localhost', port=33013, user=None, password=None, timeout=1.0)\<close>.
  An argument that is left out is \<open>None\<close> here and takes its default.
\<close>

definition Locksmith_init ::
  "state \<Rightarrow> ref \<Rightarrow> pyval option \<Rightarrow> pyval option \<Rightarrow> pyval option \<Rightarrow> pyval option \<Rightarrow> pyval option
     \<Rightarrow> (error + unit) \<times> state" where
  "Locksmith_init st self host_arg port_arg user_arg password_arg timeout_arg =
     (let host = (case host_arg of None \<Rightarrow> PyStr ''localhost'' | Some v \<Rightarrow> v);
          port = (case port_arg of None \<Rightarrow> PyInt 33013 | Some v \<Rightarrow> v);
          user = (case user_arg of None \<Rightarrow> PyNone | Some v \<Rightarrow> v);
          password = (case password_arg of None \<Rightarrow> PyNone | Some v \<Rightarrow> v);
          timeout = (case timeout_arg of None \<Rightarrow> PyFloat 1 0 | Some v \<Rightarrow> v)
      in
      if \<not> truthy host \<or> \<not> truthy port then
        (Inl (raise_Lock_BadConfigException ''Host and port params must be not empty''), st)
      else if \<not> isinstance_int port then
        (Inl (raise_Lock_BadConfigException ''Port must be int''), st)
      else
        (case threading_Lock st of (l, st1) \<Rightarrow>
           (Inr (),
            put_self self
              \<lparr>self_host = host, self_port = port, self_user = user,
               self_password = password, self_timeout = timeout, self_tubes = [],
               self_lockinst = Some l, self_conclass = Some tarantool_Connection,
               self_tnt = None\<rparr> st1)))"

text \<open>The property \<^verbatim>\<open>tarantool_connection\<close>: getter and setter.\<close>

definition tarantool_connection :: "state \<Rightarrow> ref \<Rightarrow> pyobj \<times> state" where
  "tarantool_connection st self =
     (case self_conclass (locksmiths st self) of
        None \<Rightarrow>
          (tarantool_Connection,
           put_self self ((locksmiths st self)\<lparr>self_conclass := Some tarantool_Connection\<rparr>) st)
      | Some c \<Rightarrow> (c, st))"

definition tarantool_connection_setter ::
  "state \<Rightarrow> ref \<Rightarrow> pyobj option \<Rightarrow> (error + unit) \<times> state" where
  "tarantool_connection_setter st self con_cls =
     (case con_cls of
        None \<Rightarrow>
          (Inr (),
           put_self self
             ((locksmiths st self)\<lparr>self_conclass := Some tarantool_Connection, self_tnt := None\<rparr>) st)
      | Some c \<Rightarrow>
          if ''call'' \<in> set (obj_dir c) \<and> ''__init__'' \<in> set (obj_dir c) then
            (Inr (),
             put_self self ((locksmiths st self)\<lparr>self_conclass := Some c, self_tnt := None\<rparr>) st)
          else
            (Inl (TypeError ''Connection class must have connect and call methods or be None''), st))"

text \<open>The property \<^verbatim>\<open>tarantool_lock\<close>: getter and setter.\<close>

definition tarantool_lock :: "state \<Rightarrow> ref \<Rightarrow> pyobj \<times> state" where
  "tarantool_lock st self =
     (case self_lockinst (locksmiths st self) of
        None \<Rightarrow>
          (case threading_Lock st of (l, st1) \<Rightarrow>
             (l, put_self self ((locksmiths st1 self)\<lparr>self_lockinst := Some l\<rparr>) st1))
      | Some l \<Rightarrow> (l, st))"

definition tarantool_lock_setter ::
  "state \<Rightarrow> ref \<Rightarrow> pyobj option \<Rightarrow> (error + unit) \<times> state" where
  "tarantool_lock_setter st self lock =
     (case lock of
        None \<Rightarrow>
          (case threading_Lock st of (l, st1) \<Rightarrow>
             (Inr (), put_self self ((locksmiths st1 self)\<lparr>self_lockinst := Some l\<rparr>) st1))
      | Some l \<Rightarrow>
          if ''__enter__'' \<in> set (obj_dir l) \<and> ''__exit__'' \<in> set (obj_dir l) then
            (Inr (), put_self self ((locksmiths st self)\<lparr>self_lockinst := Some l\<rparr>) st)
          else
            (Inl (TypeError ''Lock class must have `__enter__` and `__exit__` methods or be None''), st))"

text \<open>
  The property \<^verbatim>\<open>tnt\<close>.  The \<^verbatim>\<open>with\<close> block enters the lock object, runs its body
  and leaves the lock object, also when the body raises; the exception then propagates.
  The value returned is what \<^verbatim>\<open>self._tnt\<close> holds at the end.
\<close>

definition tnt :: "env \<Rightarrow> state \<Rightarrow> ref \<Rightarrow> (error + chan option) \<times> state" where
  "tnt ev st self =
     (case self_tnt (locksmiths st self) of
        Some c \<Rightarrow> (Inr (Some c), st)
      | None \<Rightarrow>
          (case tarantool_lock st self of (lock, st1) \<Rightarrow>
             let st2 = log (Enter lock) st1 in
             (case self_tnt (locksmiths st2 self) of
                Some c \<Rightarrow>
                  (let st3 = log (Exit lock) st2 in (Inr (self_tnt (locksmiths st3 self)), st3))
              | None \<Rightarrow>
                  (case tarantool_connection st2 self of (cls, st3) \<Rightarrow>
                     (case construct ev st3 cls
                             (self_host (locksmiths st3 self)) (self_port (locksmiths st3 self))
                             (self_user (locksmiths st3 self)) (self_password (locksmiths st3 self))
                             (self_timeout (locksmiths st3 self)) of
                        (Inl e, st4) \<Rightarrow> (Inl e, log (Exit lock) st4)
                      | (Inr c, st4) \<Rightarrow>
                          (let st5 = put_self self ((locksmiths st4 self)\<lparr>self_tnt := Some c\<rparr>) st4;
                               st6 = log (Exit lock) st5
                           in (Inr (self_tnt (locksmiths st6 self)), st6)))))))"

text \<open>
  \<^verbatim>\<open>acquire(self, lock_name, validity, timeout=None)\<close>.  Its first three lines build
  the argument tuple.
\<close>

definition acquire_args :: "pyval \<Rightarrow> pyval \<Rightarrow> pyval \<Rightarrow> pyval list" where
  "acquire_args lock_name validity timeout =
     (let args = [lock_name, validity] in
      if timeout \<noteq> PyNone then args @ [timeout] else args)"

definition acquire ::
  "env \<Rightarrow> state \<Rightarrow> ref \<Rightarrow> pyval \<Rightarrow> pyval \<Rightarrow> pyval \<Rightarrow> (error + ref option) \<times> state" where
  "acquire ev st self lock_name validity timeout =
     (let args = acquire_args lock_name validity timeout in
      case tnt ev st self of
        (Inl e, st1) \<Rightarrow> (Inl e, st1)
      | (Inr conn, st1) \<Rightarrow>
          (case call ev st1 conn ''locksmith:acquire'' [PyTuple args] of
             (Inl e, st2) \<Rightarrow> (Inl e, st2)
           | (Inr reply, st2) \<Rightarrow>
               (case index reply 0 of
                  Inl e \<Rightarrow> (Inl e, st2)
                | Inr the_tuple \<Rightarrow>
                    (case index the_tuple 0 of
                       Inl e \<Rightarrow> (Inl e, st2)
                     | Inr d \<Rightarrow>
                         if d \<noteq> PyNone then
                           (case index the_tuple 1 of
                              Inl e \<Rightarrow> (Inl e, st2)
                            | Inr nm \<Rightarrow>
                                (case index the_tuple 2 of
                                   Inl e \<Rightarrow> (Inl e, st2)
                                 | Inr u \<Rightarrow>
                                     (case Lock_new st2 self nm u of
                                        (h, st3) \<Rightarrow> (Inr (Some h), st3))))
                         else (Inr None, st2)))))"

text \<open>\<^verbatim>\<open>update(self, lock_uid, validity)\<close>.\<close>

definition update :: "env \<Rightarrow> state \<Rightarrow> ref \<Rightarrow> pyval \<Rightarrow> pyval \<Rightarrow> (error + bool) \<times> state" where
  "update ev st self lock_uid validity =
     (case tnt ev st self of
        (Inl e, st1) \<Rightarrow> (Inl e, st1)
      | (Inr conn, st1) \<Rightarrow>
          (case call ev st1 conn ''locksmith:update'' [PyTuple [lock_uid, validity]] of
             (Inl e, st2) \<Rightarrow> (Inl e, st2)
           | (Inr reply, st2) \<Rightarrow>
               (case index reply 0 of
                  Inl e \<Rightarrow> (Inl e, st2)
                | Inr the_tuple \<Rightarrow>
                    (case index the_tuple 0 of
                       Inl e \<Rightarrow> (Inl e, st2)
                     | Inr d \<Rightarrow> (Inr (d \<noteq> PyNone), st2)))))"

text \<open>\<^verbatim>\<open>release(self, lock_uid)\<close>.\<close>

definition release :: "env \<Rightarrow> state \<Rightarrow> ref \<Rightarrow> pyval \<Rightarrow> (error + bool) \<times> state" where
  "release ev st self lock_uid =
     (case tnt ev st self of
        (Inl e, st1) \<Rightarrow> (Inl e, st1)
      | (Inr conn, st1) \<Rightarrow>
          (case call ev st1 conn ''locksmith:release'' [PyTuple [lock_uid]] of
             (Inl e, st2) \<Rightarrow> (Inl e, st2)
           | (Inr reply, st2) \<Rightarrow>
               (case index reply 0 of
                  Inl e \<Rightarrow> (Inl e, st2)
                | Inr the_tuple \<Rightarrow>
                    (case index the_tuple 0 of
                       Inl e \<Rightarrow> (Inl e, st2)
                     | Inr d \<Rightarrow> (Inr (d \<noteq> PyNone), st2)))))"

text \<open>\<^verbatim>\<open>statistics(self)\<close>: the remote call takes no argument.\<close>

definition statistics :: "env \<Rightarrow> state \<Rightarrow> ref \<Rightarrow> (error + pyval) \<times> state" where
  "statistics ev st self =
     (case tnt ev st self of
        (Inl e, st1) \<Rightarrow> (Inl e, st1)
      | (Inr conn, st1) \<Rightarrow>
          (case call ev st1 conn ''locksmith:statistics'' [] of
             (Inl e, st2) \<Rightarrow> (Inl e, st2)
           | (Inr reply, st2) \<Rightarrow>
               (case index reply 0 of
                  Inl e \<Rightarrow> (Inl e, st2)
                | Inr the_tuple \<Rightarrow>
                    (case index the_tuple 0 of
                       Inl e \<Rightarrow> (Inl e, st2)
                     | Inr v \<Rightarrow> (Inr v, st2)))))"

section \<open>The methods of class Lock\<close>

text \<open>
  \<^verbatim>\<open>Lock.update(self, validity)\<close> and \<^verbatim>\<open>Lock.release(self)\<close> read
  \<^verbatim>\<open>self.locksmith\<close> and \<^verbatim>\<open>self.uid\<close> and call the Locksmith.
\<close>

definition Lock_update :: "env \<Rightarrow> state \<Rightarrow> ref \<Rightarrow> pyval \<Rightarrow> (error + bool) \<times> state" where
  "Lock_update ev st self validity =
     update ev st (lk_locksmith (locks st self)) (lk_uid (locks st self)) validity"

definition Lock_release :: "env \<Rightarrow> state \<Rightarrow> ref \<Rightarrow> (error + bool) \<times> state" where
  "Lock_release ev st self =
     release ev st (lk_locksmith (locks st self)) (lk_uid (locks st self))"

section \<open>Sequences of accesses and concrete fixtures\<close>


text \<open>
  A state in which nothing has happened yet, and three environments: one whose
  authority grants every request, one whose authority answers every request with an
  absent discriminator, and one that answers the statistics query.
\<close>

definition blank_Locksmith :: Locksmith where
  "blank_Locksmith =
     \<lparr>self_host = PyNone, self_port = PyNone, self_user = PyNone, self_password = PyNone,
      self_timeout = PyNone, self_tubes = [], self_lockinst = None, self_conclass = None,
      self_tnt = None\<rparr>"

definition blank_state :: state where
  "blank_state =
     \<lparr>locksmiths = (\<lambda>r. blank_Locksmith),
      locks = (\<lambda>r. \<lparr>lk_locksmith = 0, lk_name = PyNone, lk_uid = PyNone\<rparr>),
      fresh = 0, trace = []\<rparr>"

definition env_granting :: env where
  "env_granting =
     \<lparr>env_connect = (\<lambda>tr. None),
      env_respond = (\<lambda>tr. Inr [ [PyStr ''d1a96654'', PyStr ''foo'', PyStr ''d1a96654''] ])\<rparr>"

definition env_refusing :: env where
  "env_refusing =
     \<lparr>env_connect = (\<lambda>tr. None), env_respond = (\<lambda>tr. Inr [ [PyNone] ])\<rparr>"

definition env_statistics :: env where
  "env_statistics =
     \<lparr>env_connect = (\<lambda>tr. None),
      env_respond = (\<lambda>tr. Inr [ [PyTuple [PyStr ''locks'', PyInt 2]] ])\<rparr>"

text \<open>A Locksmith at reference 0 made with the arguments of the module's docstring.\<close>

definition ready_state :: state where
  "ready_state =
     snd (Locksmith_init blank_state 0 (Some (PyStr ''127.0.0.1'')) (Some (PyInt 33013))
            (Some (PyStr ''test'')) (Some (PyStr ''test'')) None)"



section \<open>Facts about the connection property\<close>

lemmas model_defs = tnt_def tarantool_lock_def tarantool_connection_def construct_def log_def
  put_self_def threading_Lock_def call_def index_def

text \<open>Once \<^verbatim>\<open>self._tnt\<close> is set, an access returns it and changes nothing.\<close>

lemma tnt_cached:
  "self_tnt (locksmiths st self) = Some c \<Longrightarrow> tnt ev st self = (Inr (Some c), st)"
  by (simp add: tnt_def)



lemma tnt_unset_result:
  "self_tnt (locksmiths st self) = None \<Longrightarrow> tnt ev st self = (Inr r, st1) \<Longrightarrow>
   \<exists>ch. r = Some ch \<and> self_tnt (locksmiths st1 self) = Some ch"
  by (auto simp add: model_defs Let_def split: option.splits prod.splits sum.splits)

lemma tnt_never_None:
  assumes "tnt ev st self = (Inr r, st1)"
  shows "\<exists>ch. r = Some ch \<and> self_tnt (locksmiths st1 self) = Some ch"
proof (cases "self_tnt (locksmiths st self)")
  case None
  then show ?thesis using assms by (rule tnt_unset_result)
next
  case (Some c)
  then have "tnt ev st self = (Inr (Some c), st)" by (rule tnt_cached)
  with assms have "r = Some c" and "st1 = st" by simp_all
  with Some show ?thesis by blast
qed

text \<open>No method of Locksmith but \<^verbatim>\<open>acquire\<close> touches a Lock object.\<close>

lemma tnt_locks: "locks (snd (tnt ev st self)) = locks st"
  by (simp add: model_defs Let_def split: option.splits prod.splits sum.splits)


lemma call_locks: "locks (snd (call ev st conn f args)) = locks st"
  by (simp add: call_def log_def Let_def split: option.splits)

lemma update_locks: "locks (snd (update ev st self lock_uid validity)) = locks st"
proof -
  obtain r st1 where t: "tnt ev st self = (r, st1)" by (cases "tnt ev st self")
  have l1: "locks st1 = locks st" using tnt_locks [of ev st self] t by simp
  show ?thesis
  proof (cases r)
    case (Inl e)
    with t l1 show ?thesis by (simp add: update_def)
  next
    case (Inr conn)
    obtain q st2 where c: "call ev st1 conn ''locksmith:update'' [PyTuple [lock_uid, validity]] = (q, st2)"
      by (cases "call ev st1 conn ''locksmith:update'' [PyTuple [lock_uid, validity]]")
    have l2: "locks st2 = locks st1"
      using call_locks [of ev st1 conn "''locksmith:update''" "[PyTuple [lock_uid, validity]]"] c by simp
    from t Inr c l1 l2 show ?thesis
      by (simp add: update_def split: sum.splits)
  qed
qed

lemma release_locks: "locks (snd (release ev st self lock_uid)) = locks st"
proof -
  obtain r st1 where t: "tnt ev st self = (r, st1)" by (cases "tnt ev st self")
  have l1: "locks st1 = locks st" using tnt_locks [of ev st self] t by simp
  show ?thesis
  proof (cases r)
    case (Inl e)
    with t l1 show ?thesis by (simp add: release_def)
  next
    case (Inr conn)
    obtain q st2 where c: "call ev st1 conn ''locksmith:release'' [PyTuple [lock_uid]] = (q, st2)"
      by (cases "call ev st1 conn ''locksmith:release'' [PyTuple [lock_uid]]")
    have l2: "locks st2 = locks st1"
      using call_locks [of ev st1 conn "''locksmith:release''" "[PyTuple [lock_uid]]"] c by simp
    from t Inr c l1 l2 show ?thesis
      by (simp add: release_def split: sum.splits)
  qed
qed

section \<open>Replies of the authority\<close>

text \<open>
  C1.  Let the access to the connection succeed and let the remote call
  \<^verbatim>\<open>locksmith:acquire\<close> return a reply whose first tuple starts with \<open>d\<close>.  If \<open>d\<close>
  is \<^verbatim>\<open>None\<close>, \<^verbatim>\<open>acquire\<close> returns \<^verbatim>\<open>None\<close> and raises nothing.  If \<open>d\<close> is
  not \<^verbatim>\<open>None\<close> and the tuple goes on with elements 1 and 2, \<^verbatim>\<open>acquire\<close> returns a
  new Lock object that refers to this Locksmith, whose name is element 1 and whose uid
  is element 2.
\<close>

theorem acquire_reply_to_handle:
  assumes "tnt ev st self = (Inr conn, st1)"
      and "call ev st1 conn ''locksmith:acquire'' [PyTuple (acquire_args lock_name validity timeout)]
             = (Inr ((d # fs) # rest), st2)"
  shows "(d = PyNone \<longrightarrow> acquire ev st self lock_name validity timeout = (Inr None, st2))
       \<and> (\<forall>nm u fs'. d \<noteq> PyNone \<and> fs = nm # u # fs' \<longrightarrow>
            (\<exists>h st3. acquire ev st self lock_name validity timeout = (Inr (Some h), st3)
               \<and> locks st3 h = \<lparr>lk_locksmith = self, lk_name = nm, lk_uid = u\<rparr>))"
  using assms by (simp add: acquire_def index_def Lock_new_def)

text \<open>
  C2.  Let the access to the connection succeed.  When the remote call
  \<^verbatim>\<open>locksmith:update\<close> (respectively \<^verbatim>\<open>locksmith:release\<close>) returns a reply whose
  first tuple starts with \<open>d\<close>, \<^verbatim>\<open>update\<close> (respectively \<^verbatim>\<open>release\<close>) returns the
  boolean \<open>d \<noteq> None\<close>: \<^verbatim>\<open>True\<close> iff the discriminator is present, and \<^verbatim>\<open>False\<close>,
  not an exception, when it is absent.
\<close>

theorem update_release_bool:
  assumes "tnt ev st self = (Inr conn, st1)"
  shows "(call ev st1 conn ''locksmith:update'' [PyTuple [lock_uid, validity]]
             = (Inr ((d # fs) # rest), st2)
          \<longrightarrow> update ev st self lock_uid validity = (Inr (d \<noteq> PyNone), st2))
       \<and> (call ev st1 conn ''locksmith:release'' [PyTuple [lock_uid]]
             = (Inr ((d' # fs') # rest'), st2')
          \<longrightarrow> release ev st self lock_uid = (Inr (d' \<noteq> PyNone), st2'))"
  using assms by (simp add: update_def release_def index_def)

text \<open>
  C3.  When the access to the connection succeeds, \<^verbatim>\<open>acquire\<close> sends exactly one
  remote call, \<^verbatim>\<open>locksmith:acquire\<close>, and nothing after it: with the tuple
  \<^verbatim>\<open>(lock_name, validity)\<close> when \<^verbatim>\<open>timeout\<close> is \<^verbatim>\<open>None\<close>, and with the tuple
  \<^verbatim>\<open>(lock_name, validity, timeout)\<close> for every other \<^verbatim>\<open>timeout\<close>, \<open>0\<close> included,
  whatever the reply is.
\<close>

theorem acquire_call_shape:
  assumes "tnt ev st self = (Inr (Some c), st1)"
  shows "trace (snd (acquire ev st self lock_name validity timeout)) =
           trace st1 @
             [Call c ''locksmith:acquire''
                [PyTuple (if timeout = PyNone then [lock_name, validity]
                          else [lock_name, validity, timeout])]]"
  using assms
  by (simp add: acquire_def acquire_args_def call_def log_def index_def Lock_new_def Let_def
           split: sum.splits)

text \<open>
  C8.  When the access to the connection succeeds, \<^verbatim>\<open>statistics\<close> sends exactly one
  remote call, \<^verbatim>\<open>locksmith:statistics\<close> with no argument, and returns element 0 of
  the first tuple of the reply as it is.
\<close>

theorem statistics_first_element:
  assumes "tnt ev st self = (Inr (Some c), st1)"
  shows "trace (snd (statistics ev st self)) = trace st1 @ [Call c ''locksmith:statistics'' []]
       \<and> (env_respond ev (trace st1 @ [Call c ''locksmith:statistics'' []]) = Inr ((v # fs) # rest)
            \<longrightarrow> fst (statistics ev st self) = Inr v)"
  using assms
  by (simp add: statistics_def call_def log_def index_def Let_def split: sum.splits)

section \<open>Lock objects\<close>

text \<open>
  C9.  For a Lock object \<open>h\<close>, \<^verbatim>\<open>h.update(validity)\<close> is
  \<^verbatim>\<open>locksmith.update(uid, validity)\<close> and \<^verbatim>\<open>h.release()\<close> is
  \<^verbatim>\<open>locksmith.release(uid)\<close>, result and state, for the Locksmith and the uid stored in
  \<open>h\<close>; for an \<open>h\<close> just made by \<^verbatim>\<open>Lock(ls, nm, u)\<close> these are \<open>ls\<close> and \<open>u\<close>.
  Neither call changes the attributes of \<open>h\<close>.
\<close>

theorem Lock_delegates:
  "Lock_update ev st h validity
      = update ev st (lk_locksmith (locks st h)) (lk_uid (locks st h)) validity
   \<and> Lock_release ev st h = release ev st (lk_locksmith (locks st h)) (lk_uid (locks st h))
   \<and> locks (snd (Lock_update ev st h validity)) h = locks st h
   \<and> locks (snd (Lock_release ev st h)) h = locks st h
   \<and> (\<forall>st0 ls nm u. Lock_new st0 ls nm u = (h, st) \<longrightarrow>
         Lock_update ev st h validity = update ev st ls u validity
       \<and> Lock_release ev st h = release ev st ls u)"
  by (auto simp add: Lock_update_def Lock_release_def update_locks release_locks Lock_new_def)


section \<open>The connection is made once\<close>


section \<open>The two substitution points\<close>

text \<open>
  C6.  Assigning to \<^verbatim>\<open>tarantool_connection\<close> an object other than \<^verbatim>\<open>None\<close> whose
  \<^verbatim>\<open>dir()\<close> lacks \<^verbatim>\<open>call\<close>, or to \<^verbatim>\<open>tarantool_lock\<close> an object other than
  \<^verbatim>\<open>None\<close> whose \<^verbatim>\<open>dir()\<close> lacks \<^verbatim>\<open>__enter__\<close> or \<^verbatim>\<open>__exit__\<close>, raises at
  once (the exception is Python's \<^verbatim>\<open>TypeError\<close>) and leaves the whole state as it
  was, so that the class or lock configured before stays in effect.
\<close>

theorem setters_reject_incapable:
  "(''call'' \<notin> set (obj_dir c) \<longrightarrow>
      tarantool_connection_setter st self (Some c)
        = (Inl (TypeError ''Connection class must have connect and call methods or be None''), st))
   \<and> (''__enter__'' \<notin> set (obj_dir l) \<or> ''__exit__'' \<notin> set (obj_dir l) \<longrightarrow>
      tarantool_lock_setter st self (Some l)
        = (Inl (TypeError ''Lock class must have `__enter__` and `__exit__` methods or be None''), st))"
  by (simp add: tarantool_connection_setter_def tarantool_lock_setter_def)

text \<open>
  C7.  Assigning \<^verbatim>\<open>None\<close> to \<^verbatim>\<open>tarantool_connection\<close> succeeds and stores
  \<^verbatim>\<open>tarantool.Connection\<close>, which the getter then returns; assigning \<^verbatim>\<open>None\<close> to
  \<^verbatim>\<open>tarantool_lock\<close> succeeds and stores a new \<^verbatim>\<open>threading.Lock()\<close>, which the
  getter then returns; and a getter that finds its attribute unset returns the same
  default.
\<close>

theorem substitution_defaults:
  "fst (tarantool_connection_setter st self None) = Inr ()
   \<and> self_conclass (locksmiths (snd (tarantool_connection_setter st self None)) self)
       = Some tarantool_Connection
   \<and> fst (tarantool_connection (snd (tarantool_connection_setter st self None)) self)
       = tarantool_Connection
   \<and> fst (tarantool_lock_setter st self None) = Inr ()
   \<and> self_lockinst (locksmiths (snd (tarantool_lock_setter st self None)) self)
       = Some (fst (threading_Lock st))
   \<and> fst (tarantool_lock (snd (tarantool_lock_setter st self None)) self)
       = fst (threading_Lock st)
   \<and> (self_conclass (locksmiths st self) = None \<longrightarrow>
        fst (tarantool_connection st self) = tarantool_Connection)
   \<and> (self_lockinst (locksmiths st self) = None \<longrightarrow>
        fst (tarantool_lock st self) = fst (threading_Lock st))
   \<and> obj_name (fst (threading_Lock st)) = ''threading.Lock''"
  by (simp add: tarantool_connection_setter_def tarantool_lock_setter_def
        tarantool_connection_def tarantool_lock_def threading_Lock_def put_self_def)





section \<open>Constructor arguments\<close>

text \<open>
  C5.  What \<^verbatim>\<open>__init__\<close> does with a host that is not truthy (empty, \<^verbatim>\<open>None\<close>),
  a port that is not truthy (\<open>0\<close>, \<^verbatim>\<open>None\<close>) or a port that is not an \<^verbatim>\<open>int\<close>:
  the expression \<^verbatim>\<open>Lock.BadConfigException\<close> is evaluated, the name is bound in class
  \<^verbatim>\<open>Locksmith\<close> and not in class \<^verbatim>\<open>Lock\<close>, and the exception that leaves
  \<^verbatim>\<open>__init__\<close> is \<^verbatim>\<open>AttributeError\<close>, not \<^verbatim>\<open>Locksmith.BadConfigException\<close>.
  Nothing is stored and nothing is sent.
\<close>

theorem init_raises_AttributeError:
  "''BadConfigException'' \<in> set Locksmith_attributes
   \<and> ''BadConfigException'' \<notin> set Lock_attributes
   \<and> (\<not> truthy host \<or> \<not> truthy port \<or> \<not> isinstance_int port \<longrightarrow>
        Locksmith_init st self (Some host) (Some port) user_arg password_arg timeout_arg
          = (Inl (AttributeError ''Lock'' ''BadConfigException''), st))"
  by (auto simp add: Locksmith_init_def raise_Lock_BadConfigException_def Lock_attributes_def
        Locksmith_attributes_def)

section \<open>Runs on the fixtures\<close>

lemmas fixture_defs = ready_state_def blank_state_def blank_Locksmith_def Locksmith_init_def
  env_granting_def env_refusing_def env_statistics_def tarantool_Connection_def

lemma ready_tnt_granting:
  "tnt env_granting ready_state 0 = (Inr (Some (Chan 1)), snd (tnt env_granting ready_state 0))"
  by (simp add: prod_eq_iff fixture_defs model_defs)

lemma ready_tnt_refusing:
  "tnt env_refusing ready_state 0 = (Inr (Some (Chan 1)), snd (tnt env_refusing ready_state 0))"
  by (simp add: prod_eq_iff fixture_defs model_defs)

text \<open>
  The Locksmith of the docstring against an authority that grants (a handle on
  \<^verbatim>\<open>foo\<close> comes back) and against one that refuses (\<^verbatim>\<open>None\<close> comes back).
\<close>

theorem acquire_reply_to_handle_witness:
  "tnt env_granting ready_state 0 = (Inr (Some (Chan 1)), snd (tnt env_granting ready_state 0))
   \<and> call env_granting (snd (tnt env_granting ready_state 0)) (Some (Chan 1)) ''locksmith:acquire''
         [PyTuple (acquire_args (PyStr ''foo'') (PyInt 60) PyNone)]
       = (Inr ((PyStr ''d1a96654'' # [PyStr ''foo'', PyStr ''d1a96654'']) # []),
          snd (call env_granting (snd (tnt env_granting ready_state 0)) (Some (Chan 1))
                 ''locksmith:acquire'' [PyTuple (acquire_args (PyStr ''foo'') (PyInt 60) PyNone)]))
   \<and> (\<exists>h st3. acquire env_granting ready_state 0 (PyStr ''foo'') (PyInt 60) PyNone
                  = (Inr (Some h), st3)
         \<and> locks st3 h = \<lparr>lk_locksmith = 0, lk_name = PyStr ''foo'', lk_uid = PyStr ''d1a96654''\<rparr>)
   \<and> tnt env_refusing ready_state 0 = (Inr (Some (Chan 1)), snd (tnt env_refusing ready_state 0))
   \<and> call env_refusing (snd (tnt env_refusing ready_state 0)) (Some (Chan 1)) ''locksmith:acquire''
         [PyTuple (acquire_args (PyStr ''foo'') (PyInt 60) (PyInt 0))]
       = (Inr ((PyNone # []) # []),
          snd (call env_refusing (snd (tnt env_refusing ready_state 0)) (Some (Chan 1))
                 ''locksmith:acquire'' [PyTuple (acquire_args (PyStr ''foo'') (PyInt 60) (PyInt 0))]))
   \<and> fst (acquire env_refusing ready_state 0 (PyStr ''foo'') (PyInt 60) (PyInt 0)) = Inr None"
proof -
  have g2: "call env_granting (snd (tnt env_granting ready_state 0)) (Some (Chan 1)) ''locksmith:acquire''
         [PyTuple (acquire_args (PyStr ''foo'') (PyInt 60) PyNone)]
       = (Inr ((PyStr ''d1a96654'' # [PyStr ''foo'', PyStr ''d1a96654'']) # []),
          snd (call env_granting (snd (tnt env_granting ready_state 0)) (Some (Chan 1))
                 ''locksmith:acquire'' [PyTuple (acquire_args (PyStr ''foo'') (PyInt 60) PyNone)]))"
    by (simp add: prod_eq_iff call_def log_def env_granting_def)
  have r2: "call env_refusing (snd (tnt env_refusing ready_state 0)) (Some (Chan 1)) ''locksmith:acquire''
         [PyTuple (acquire_args (PyStr ''foo'') (PyInt 60) (PyInt 0))]
       = (Inr ((PyNone # []) # []),
          snd (call env_refusing (snd (tnt env_refusing ready_state 0)) (Some (Chan 1))
                 ''locksmith:acquire'' [PyTuple (acquire_args (PyStr ''foo'') (PyInt 60) (PyInt 0))]))"
    by (simp add: prod_eq_iff call_def log_def env_refusing_def)
  show ?thesis
    using acquire_reply_to_handle [OF ready_tnt_granting g2]
          acquire_reply_to_handle [OF ready_tnt_refusing r2]
          ready_tnt_granting ready_tnt_refusing g2 r2
    by simp
qed


lemma ready_tnt_statistics:
  "tnt env_statistics ready_state 0 = (Inr (Some (Chan 1)), snd (tnt env_statistics ready_state 0))"
  by (simp add: prod_eq_iff fixture_defs model_defs)


text \<open>Renewing and releasing a lease the authority knows, and one it does not know.\<close>

theorem update_release_bool_witness:
  "tnt env_granting ready_state 0 = (Inr (Some (Chan 1)), snd (tnt env_granting ready_state 0))
   \<and> tnt env_refusing ready_state 0 = (Inr (Some (Chan 1)), snd (tnt env_refusing ready_state 0))
   \<and> fst (update env_granting ready_state 0 (PyStr ''d1a96654'') (PyInt 30)) = Inr True
   \<and> fst (release env_granting ready_state 0 (PyStr ''d1a96654'')) = Inr True
   \<and> fst (update env_refusing ready_state 0 (PyStr ''d1a96654'') (PyInt 30)) = Inr False
   \<and> fst (release env_refusing ready_state 0 (PyStr ''d1a96654'')) = Inr False"
  using update_release_bool [OF ready_tnt_granting,
          where lock_uid = "PyStr ''d1a96654''" and validity = "PyInt 30"
            and d = "PyStr ''d1a96654''" and fs = "[PyStr ''foo'', PyStr ''d1a96654'']"
            and rest = "[]" and d' = "PyStr ''d1a96654''"
            and fs' = "[PyStr ''foo'', PyStr ''d1a96654'']" and rest' = "[]"
            and ?st2.0 = "snd (call env_granting (snd (tnt env_granting ready_state 0))
                           (Some (Chan 1)) ''locksmith:update''
                           [PyTuple [PyStr ''d1a96654'', PyInt 30]])"
            and st2' = "snd (call env_granting (snd (tnt env_granting ready_state 0))
                           (Some (Chan 1)) ''locksmith:release''
                           [PyTuple [PyStr ''d1a96654'']])"]
        update_release_bool [OF ready_tnt_refusing,
          where lock_uid = "PyStr ''d1a96654''" and validity = "PyInt 30"
            and d = PyNone and fs = "[]" and rest = "[]" and d' = PyNone
            and fs' = "[]" and rest' = "[]"
            and ?st2.0 = "snd (call env_refusing (snd (tnt env_refusing ready_state 0))
                           (Some (Chan 1)) ''locksmith:update''
                           [PyTuple [PyStr ''d1a96654'', PyInt 30]])"
            and st2' = "snd (call env_refusing (snd (tnt env_refusing ready_state 0))
                           (Some (Chan 1)) ''locksmith:release''
                           [PyTuple [PyStr ''d1a96654'']])"]
        ready_tnt_granting ready_tnt_refusing
  by (simp add: prod_eq_iff call_def log_def env_granting_def env_refusing_def)

text \<open>The two shapes, for no timeout and for the timeout \<open>0\<close>.\<close>

theorem acquire_call_shape_witness:
  "tnt env_granting ready_state 0 = (Inr (Some (Chan 1)), snd (tnt env_granting ready_state 0))
   \<and> trace (snd (acquire env_granting ready_state 0 (PyStr ''foo'') (PyInt 60) PyNone))
       = trace (snd (tnt env_granting ready_state 0)) @
           [Call (Chan 1) ''locksmith:acquire'' [PyTuple [PyStr ''foo'', PyInt 60]]]
   \<and> trace (snd (acquire env_granting ready_state 0 (PyStr ''foo'') (PyInt 60) (PyInt 0)))
       = trace (snd (tnt env_granting ready_state 0)) @
           [Call (Chan 1) ''locksmith:acquire'' [PyTuple [PyStr ''foo'', PyInt 60, PyInt 0]]]"
  using acquire_call_shape [OF ready_tnt_granting, of "PyStr ''foo''" "PyInt 60" PyNone]
        acquire_call_shape [OF ready_tnt_granting, of "PyStr ''foo''" "PyInt 60" "PyInt 0"]
        ready_tnt_granting
  by simp

text \<open>An authority that answers with one record.\<close>

theorem statistics_first_element_witness:
  "tnt env_statistics ready_state 0 = (Inr (Some (Chan 1)), snd (tnt env_statistics ready_state 0))
   \<and> trace (snd (statistics env_statistics ready_state 0))
       = trace (snd (tnt env_statistics ready_state 0)) @ [Call (Chan 1) ''locksmith:statistics'' []]
   \<and> fst (statistics env_statistics ready_state 0) = Inr (PyTuple [PyStr ''locks'', PyInt 2])"
  using statistics_first_element [OF ready_tnt_statistics,
          of "PyTuple [PyStr ''locks'', PyInt 2]" "[]" "[]"]
        ready_tnt_statistics
  by (simp add: env_statistics_def)

text \<open>A Lock object made for the Locksmith at reference 0.\<close>

theorem Lock_delegates_witness:
  "Lock_new ready_state 0 (PyStr ''foo'') (PyStr ''d1a96654'')
     = (1, snd (Lock_new ready_state 0 (PyStr ''foo'') (PyStr ''d1a96654'')))
   \<and> Lock_update env_granting (snd (Lock_new ready_state 0 (PyStr ''foo'') (PyStr ''d1a96654''))) 1
         (PyInt 30)
       = update env_granting (snd (Lock_new ready_state 0 (PyStr ''foo'') (PyStr ''d1a96654''))) 0
           (PyStr ''d1a96654'') (PyInt 30)
   \<and> Lock_release env_granting (snd (Lock_new ready_state 0 (PyStr ''foo'') (PyStr ''d1a96654''))) 1
       = release env_granting (snd (Lock_new ready_state 0 (PyStr ''foo'') (PyStr ''d1a96654''))) 0
           (PyStr ''d1a96654'')"
proof -
  have n: "Lock_new ready_state 0 (PyStr ''foo'') (PyStr ''d1a96654'')
     = (1, snd (Lock_new ready_state 0 (PyStr ''foo'') (PyStr ''d1a96654'')))"
    by (simp add: prod_eq_iff Lock_new_def fixture_defs threading_Lock_def put_self_def)
  show ?thesis
    using Lock_delegates [of env_granting
            "snd (Lock_new ready_state 0 (PyStr ''foo'') (PyStr ''d1a96654''))" 1 "PyInt 30"] n
    by blast
qed


text \<open>A class without \<^verbatim>\<open>call\<close> and an object without \<^verbatim>\<open>__exit__\<close>.\<close>

theorem setters_reject_incapable_witness:
  "''call'' \<notin> set (obj_dir (PyObj ''Broken'' 0 [''__init__'', ''connect'']))
   \<and> tarantool_connection_setter ready_state 0 (Some (PyObj ''Broken'' 0 [''__init__'', ''connect'']))
       = (Inl (TypeError ''Connection class must have connect and call methods or be None''),
          ready_state)
   \<and> ''__exit__'' \<notin> set (obj_dir (PyObj ''HalfLock'' 0 [''__enter__'']))
   \<and> tarantool_lock_setter ready_state 0 (Some (PyObj ''HalfLock'' 0 [''__enter__'']))
       = (Inl (TypeError ''Lock class must have `__enter__` and `__exit__` methods or be None''),
          ready_state)"
  using setters_reject_incapable [of "PyObj ''Broken'' 0 [''__init__'', ''connect'']" ready_state 0
          "PyObj ''HalfLock'' 0 [''__enter__'']"]
  by simp

text \<open>An object whose two attributes are unset.\<close>

theorem substitution_defaults_witness:
  "self_conclass (locksmiths blank_state 0) = None
   \<and> fst (tarantool_connection blank_state 0) = tarantool_Connection
   \<and> self_lockinst (locksmiths blank_state 0) = None
   \<and> fst (tarantool_lock blank_state 0)
       = PyObj ''threading.Lock'' 0 [''__enter__'', ''__exit__'', ''acquire'', ''locked'', ''release'']
   \<and> self_conclass (locksmiths (snd (tarantool_connection_setter blank_state 0 None)) 0)
       = Some tarantool_Connection
   \<and> self_lockinst (locksmiths (snd (tarantool_lock_setter blank_state 0 None)) 0)
       = Some (PyObj ''threading.Lock'' 0
                 [''__enter__'', ''__exit__'', ''acquire'', ''locked'', ''release''])"
  using substitution_defaults [of blank_state 0]
  by (simp add: blank_state_def blank_Locksmith_def threading_Lock_def)

text \<open>An empty host, the port \<open>0\<close> and a port given as a string, on the blank state.\<close>

theorem init_raises_AttributeError_witness:
  "\<not> truthy (PyStr [])
   \<and> Locksmith_init blank_state 0 (Some (PyStr [])) (Some (PyInt 33013)) None None None
       = (Inl (AttributeError ''Lock'' ''BadConfigException''), blank_state)
   \<and> \<not> truthy (PyInt 0)
   \<and> Locksmith_init blank_state 0 (Some (PyStr ''127.0.0.1'')) (Some (PyInt 0)) None None None
       = (Inl (AttributeError ''Lock'' ''BadConfigException''), blank_state)
   \<and> \<not> isinstance_int (PyStr ''33013'')
   \<and> Locksmith_init blank_state 0 (Some (PyStr ''127.0.0.1'')) (Some (PyStr ''33013'')) None
         None None
       = (Inl (AttributeError ''Lock'' ''BadConfigException''), blank_state)"
  using init_raises_AttributeError [of "PyStr []" "PyInt 33013" blank_state 0 None None None]
        init_raises_AttributeError [of "PyStr ''127.0.0.1''" "PyInt 0" blank_state 0 None None None]
        init_raises_AttributeError [of "PyStr ''127.0.0.1''" "PyStr ''33013''" blank_state 0 None
          None None]
  by simp


end
